theory Spec2Isabelle
  imports Main "HOL-Library.Word" "HOL-Library.Monad_Syntax"
begin

unbundle bit_operations_syntax

section \<open>IPRateMonitor (elements/ip/ipratemon.cc)\<close>

text \<open>
  A shallow embedding of \<^verbatim>\<open>IPRateMonitor\<close>. The C++ objects live in an explicit store:
  one map from addresses to \<^verbatim>\<open>Stats\<close> nodes and one from addresses to \<^verbatim>\<open>Counter\<close>s, both
  part of the monitor state, because the tree (\<^verbatim>\<open>counter[i]\<close>, \<^verbatim>\<open>next_level\<close>, \<^verbatim>\<open>_parent\<close>)
  and the age list (\<^verbatim>\<open>_first\<close>, \<^verbatim>\<open>_last\<close>, \<^verbatim>\<open>_next\<close>, \<^verbatim>\<open>_prev\<close>) alias the same nodes.
  A null pointer is \<open>None\<close>. A function that dereferences a pointer returns an option:
  \<open>None\<close> stands for a run that does not return normally, because it dereferences a
  pointer to freed memory or because the recursion fuel is used up.

  \<^verbatim>\<open>unsigned\<close> and \<^verbatim>\<open>size_t\<close> are \<open>32 word\<close> (ILP32), \<^verbatim>\<open>int\<close> is \<open>int\<close> with the
  wrap-around to 32 bits written out where the code computes.
\<close>

subsection \<open>Machine integers\<close>

type_synonym u32 = "32 word"

definition int32 :: "int \<Rightarrow> int" where
  \<comment> \<open>the value of a result of \<^verbatim>\<open>int\<close> arithmetic, reduced to 32 bits two's complement\<close>
  "int32 x = sint (word_of_int x :: 32 word)"

definition bitlen :: "nat \<Rightarrow> nat" where
  \<comment> \<open>number of binary digits of a value below \<open>2 ^ 32\<close>\<close>
  "bitlen x = length (filter (\<lambda>k. 2 ^ k \<le> x) [0..<32])"

definition float_of_u32 :: "u32 \<Rightarrow> nat" where
  \<comment> \<open>\<^verbatim>\<open>(float) x\<close> for an unsigned \<open>x\<close>: the nearest value with a 24-bit significand,
      ties to the even significand\<close>
  "float_of_u32 x =
     (let n = unat x; e = bitlen n - 24; q = n div 2 ^ e; r = n mod 2 ^ e
      in if e = 0 then n
         else if 2 ^ (e - 1) < r \<or> (r = 2 ^ (e - 1) \<and> odd q) then (q + 1) * 2 ^ e
         else q * 2 ^ e)"

subsection \<open>Declarations taken as parameters\<close>

text \<open>
  \<^verbatim>\<open>ipratemon.hh\<close>, \<^verbatim>\<open>ewma.hh\<close> and \<^verbatim>\<open>confparse.hh\<close> are not part of the sources at hand.
  What the code uses of them is collected in one record, and every function of the model
  takes it as its first argument: the sizes of the two structures, the constants
  \<^verbatim>\<open>MEMMAX_MIN\<close> and \<^verbatim>\<open>MAX_COUNTERS\<close>, the operations of \<^verbatim>\<open>MyEWMA\<close> on its state \<open>'e\<close>, and
  \<^verbatim>\<open>cp_unparse_real\<close>.
\<close>

record 'e decls =
  sizeof_Counter :: u32
  sizeof_Stats :: u32
  MEMMAX_MIN :: u32
  MAX_COUNTERS :: nat
  ewma_initialize :: "'e"
  ewma_update :: "int \<Rightarrow> int \<Rightarrow> 'e \<Rightarrow> 'e"
  ewma_average :: "'e \<Rightarrow> int"
  ewma_freq :: int
  ewma_scale :: int
  cp_unparse_real :: "int \<Rightarrow> int \<Rightarrow> string"

subsection \<open>Data\<close>

type_synonym sref = nat  \<comment> \<open>address of a \<^verbatim>\<open>Stats\<close>\<close>
type_synonym cref = nat  \<comment> \<open>address of a \<^verbatim>\<open>Counter\<close>\<close>

record 'e Counter =
  rev_rate :: "'e"
  fwd_rate :: "'e"
  next_level :: "sref option"
  anno_this :: u32

record Stats =
  counter :: "nat \<Rightarrow> cref option"
  prev_s :: "sref option"
  next_s :: "sref option"
  parent :: "cref option"

record 'e IPRateMonitor =
  count_packets :: bool
  offset :: u32
  thresh :: u32
  memmax :: u32
  ratio :: u32
  anno_packets :: bool
  base :: "sref option"
  alloced_mem :: u32
  first :: "sref option"
  last_s :: "sref option"
  prev_deleted :: "sref option"
  next_deleted :: "sref option"
  resettime :: int
  stats_heap :: "sref \<rightharpoonup> Stats"
  counter_heap :: "cref \<rightharpoonup> 'e Counter"

datatype error = ParseError | BadMonitorType | BadRatio | NoSpinlock | NoMemory

text \<open>The constructor \<^verbatim>\<open>IPRateMonitor::IPRateMonitor\<close>; nothing is allocated yet.\<close>

definition IPRateMonitor_new :: "'e IPRateMonitor" where
  "IPRateMonitor_new =
     \<lparr>count_packets = True, offset = 0, thresh = 1, memmax = 0, ratio = 1,
      anno_packets = True, base = None, alloced_mem = 0, first = None, last_s = None,
      prev_deleted = None, next_deleted = None, resettime = 0,
      stats_heap = Map.empty, counter_heap = Map.empty\<rparr>"

definition update_alloced_mem :: "u32 \<Rightarrow> 'e IPRateMonitor \<Rightarrow> 'e IPRateMonitor" where
  "update_alloced_mem d m = m\<lparr>alloced_mem := alloced_mem m + d\<rparr>"

subsection \<open>configure\<close>

text \<open>
  The arguments as \<^verbatim>\<open>cp_va_parse\<close> stores them: the type word, offset, ratio (16.16 fixed
  point), threshold, and the two optional arguments. \<^verbatim>\<open>cp_va_parse\<close> itself is not part of
  the sources; a configuration it rejects is the input \<open>None\<close>, and the model lets it store
  nothing in that case.
\<close>

record conf_args =
  arg_type :: string
  arg_offset :: u32
  arg_ratio :: u32
  arg_threshold :: u32
  arg_memmax :: "u32 option"
  arg_annotate :: "bool option"

definition upper_char :: "char \<Rightarrow> char" where
  "upper_char c =
     (case map_of (zip ''abcdefghijklmnopqrstuvwxyz'' ''ABCDEFGHIJKLMNOPQRSTUVWXYZ'') c of
        None \<Rightarrow> c
      | Some u \<Rightarrow> u)"

definition upper :: "string \<Rightarrow> string" where
  "upper s = map upper_char s"

definition configure ::
  "'e decls \<Rightarrow> conf_args option \<Rightarrow> 'e IPRateMonitor \<Rightarrow> (error + unit) \<times> 'e IPRateMonitor"
where
  "configure D conf m =
     (let m0 = m\<lparr>memmax := 0, anno_packets := True\<rparr> in
      case conf of
        None \<Rightarrow> (Inl ParseError, m0)
      | Some a \<Rightarrow>
          let m1 = m0\<lparr>offset := arg_offset a, ratio := arg_ratio a, thresh := arg_threshold a,
                      memmax := (case arg_memmax a of None \<Rightarrow> memmax m0 | Some k \<Rightarrow> k),
                      anno_packets :=
                        (case arg_annotate a of None \<Rightarrow> anno_packets m0 | Some b \<Rightarrow> b)\<rparr>
          in if upper (arg_type a) \<noteq> ''PACKETS'' \<and> upper (arg_type a) \<noteq> ''BYTES''
             then (Inl BadMonitorType, m1)
             else
               let m2 = m1\<lparr>count_packets := (upper (arg_type a) = ''PACKETS'')\<rparr>;
                   m3 = (if memmax m2 \<noteq> 0 \<and> memmax m2 < MEMMAX_MIN D
                         then m2\<lparr>memmax := MEMMAX_MIN D\<rparr> else m2);
                   m4 = m3\<lparr>memmax := memmax m3 * 1024\<rparr>
               in if ratio m4 > 0x10000 then (Inl BadRatio, m4)
                  else (Inr (), m4\<lparr>thresh := drop_bit 16 (thresh m4 * ratio m4)\<rparr>))"

subsection \<open>Stats::Stats and initialize\<close>

text \<open>
  \<^verbatim>\<open>new Stats(this)\<close> at the address \<open>a\<close> the allocator hands out: the constructor adds
  \<^verbatim>\<open>sizeof(*this)\<close> to \<^verbatim>\<open>_alloced_mem\<close> and clears every pointer of the node.
\<close>

definition Stats_new :: "'e decls \<Rightarrow> sref \<Rightarrow> 'e IPRateMonitor \<Rightarrow> 'e IPRateMonitor" where
  "Stats_new D a m =
     (update_alloced_mem (sizeof_Stats D) m)
       \<lparr>stats_heap := (stats_heap m)(a \<mapsto>
          \<lparr>counter = (\<lambda>i. None), prev_s = None, next_s = None, parent = None\<rparr>)\<rparr>"

text \<open>
  \<^verbatim>\<open>initialize\<close>: \<open>now\<close> is the tick read by \<^verbatim>\<open>set_resettime\<close>, \<open>lock_ok\<close> says whether
  \<^verbatim>\<open>new Spinlock\<close> succeeded, \<open>a\<close> is the result of \<^verbatim>\<open>new Stats\<close> (\<open>None\<close> when it fails).
\<close>

definition initialize ::
  "'e decls \<Rightarrow> int \<Rightarrow> bool \<Rightarrow> sref option \<Rightarrow> 'e IPRateMonitor
     \<Rightarrow> (error + unit) \<times> 'e IPRateMonitor"
where
  "initialize D now lock_ok a m =
     (let m1 = m\<lparr>resettime := now\<rparr> in
      if \<not> lock_ok then (Inl NoSpinlock, m1)
      else case a of
        None \<Rightarrow> (Inl NoMemory, m1\<lparr>base := None\<rparr>)
      | Some r \<Rightarrow>
          let m2 = (Stats_new D r m1)\<lparr>base := Some r\<rparr>
          in (Inr (), m2\<lparr>first := base m2, last_s := base m2\<rparr>))"

subsection \<open>make_counter\<close>

text \<open>
  \<open>alloc\<close> is the result of \<^verbatim>\<open>new Counter\<close>; \<open>fwdp\<close> and \<open>revp\<close> are the values behind the two
  \<^verbatim>\<open>MyEWMA *\<close> arguments, \<open>None\<close> for a null pointer. The result is the returned pointer and
  the new state.
\<close>

definition make_counter ::
  "'e decls \<Rightarrow> cref option \<Rightarrow> sref \<Rightarrow> 8 word \<Rightarrow> 'e option \<Rightarrow> 'e option \<Rightarrow> 'e IPRateMonitor
     \<Rightarrow> (cref option \<times> 'e IPRateMonitor) option"
where
  "make_counter D alloc s index fwdp revp m =
     (if memmax m \<noteq> 0 \<and> alloced_mem m + sizeof_Counter D > memmax m then Some (None, m)
      else do {
        st \<leftarrow> stats_heap m s;
        let m1 = m\<lparr>stats_heap :=
                     (stats_heap m)(s \<mapsto> st\<lparr>counter := (counter st)(unat index := alloc)\<rparr>)\<rparr>;
        case alloc of
          None \<Rightarrow> Some (None, m1)
        | Some c \<Rightarrow>
            Some (Some c,
              (update_alloced_mem (sizeof_Counter D) m1)
                \<lparr>counter_heap := (counter_heap m1)(c \<mapsto>
                   \<lparr>rev_rate = (case revp of None \<Rightarrow> ewma_initialize D | Some r \<Rightarrow> r),
                    fwd_rate = (case fwdp of None \<Rightarrow> ewma_initialize D | Some f \<Rightarrow> f),
                    next_level = None, anno_this = 0\<rparr>)\<rparr>)
      })"

subsection \<open>Stats::~Stats and delete\<close>

text \<open>\<^verbatim>\<open>delete c\<close> for a \<^verbatim>\<open>Counter *\<close>: nothing for a null pointer, otherwise the cell is freed.\<close>

definition delete_Counter ::
  "cref option \<Rightarrow> 'e IPRateMonitor \<Rightarrow> 'e IPRateMonitor option"
where
  "delete_Counter p m =
     (case p of
        None \<Rightarrow> Some m
      | Some c \<Rightarrow> do {
          cv \<leftarrow> counter_heap m c;
          Some (m\<lparr>counter_heap := (counter_heap m)(c := None)\<rparr>)
        })"

text \<open>The block \<^verbatim>\<open>// Untangle _prev\<close> of the destructor, run on the node \<open>s\<close>.\<close>

definition untangle_prev :: "sref \<Rightarrow> 'e IPRateMonitor \<Rightarrow> 'e IPRateMonitor option" where
  "untangle_prev s m = do {
     st \<leftarrow> stats_heap m s;
     case prev_s st of
       Some p \<Rightarrow> do {
         pst \<leftarrow> stats_heap m p;
         Some (m\<lparr>stats_heap := (stats_heap m)(p \<mapsto> pst\<lparr>next_s := next_s st\<rparr>),
                 prev_deleted := Some p\<rparr>)
       }
     | None \<Rightarrow> do {
         let m1 = m\<lparr>first := next_s st\<rparr>;
         m2 \<leftarrow> (case next_s st of
                  None \<Rightarrow> Some m1
                | Some nx \<Rightarrow> do {
                    nst \<leftarrow> stats_heap m1 nx;
                    Some (m1\<lparr>stats_heap := (stats_heap m1)(nx \<mapsto> nst\<lparr>prev_s := None\<rparr>)\<rparr>)
                  });
         Some (m2\<lparr>prev_deleted := None\<rparr>)
       }
   }"

text \<open>The block \<^verbatim>\<open>// Untangle _next\<close>.\<close>

definition untangle_next :: "sref \<Rightarrow> 'e IPRateMonitor \<Rightarrow> 'e IPRateMonitor option" where
  "untangle_next s m = do {
     st \<leftarrow> stats_heap m s;
     case next_s st of
       Some nx \<Rightarrow> do {
         nst \<leftarrow> stats_heap m nx;
         Some (m\<lparr>stats_heap := (stats_heap m)(nx \<mapsto> nst\<lparr>prev_s := prev_s st\<rparr>),
                 next_deleted := Some nx\<rparr>)
       }
     | None \<Rightarrow> do {
         let m1 = m\<lparr>last_s := prev_s st\<rparr>;
         m2 \<leftarrow> (case prev_s st of
                  None \<Rightarrow> Some m1
                | Some p \<Rightarrow> do {
                    pst \<leftarrow> stats_heap m1 p;
                    Some (m1\<lparr>stats_heap := (stats_heap m1)(p \<mapsto> pst\<lparr>next_s := None\<rparr>)\<rparr>)
                  });
         Some (m2\<lparr>next_deleted := None\<rparr>)
       }
   }"

text \<open>The block \<^verbatim>\<open>// Clear pointer to this in parent\<close>.\<close>

definition clear_parent :: "sref \<Rightarrow> 'e IPRateMonitor \<Rightarrow> 'e IPRateMonitor option" where
  "clear_parent s m = do {
     st \<leftarrow> stats_heap m s;
     case parent st of
       None \<Rightarrow> Some m
     | Some c \<Rightarrow> do {
         cv \<leftarrow> counter_heap m c;
         Some (m\<lparr>counter_heap := (counter_heap m)(c \<mapsto> cv\<lparr>next_level := None\<rparr>)\<rparr>)
       }
   }"

text \<open>
  \<^verbatim>\<open>delete s\<close> for a \<^verbatim>\<open>Stats *\<close>: the destructor, then the node is freed. The destructor
  calls itself on the children, so the function takes the depth it may recurse to as fuel.
  \<open>Stats_dtor_slots\<close> is the loop over the slots, run on the slots \<open>is\<close> still to visit.
\<close>

fun delete_Stats ::
  "'e decls \<Rightarrow> nat \<Rightarrow> sref \<Rightarrow> 'e IPRateMonitor \<Rightarrow> 'e IPRateMonitor option"
and Stats_dtor_slots ::
  "'e decls \<Rightarrow> nat \<Rightarrow> sref \<Rightarrow> nat list \<Rightarrow> 'e IPRateMonitor \<Rightarrow> 'e IPRateMonitor option"
where
  "delete_Stats D 0 s m = None"
| "delete_Stats D (Suc n) s m = do {
     m1 \<leftarrow> Stats_dtor_slots D n s [0..<MAX_COUNTERS D] m;
     m2 \<leftarrow> untangle_prev s m1;
     m3 \<leftarrow> untangle_next s m2;
     m4 \<leftarrow> clear_parent s m3;
     Some ((update_alloced_mem (- sizeof_Stats D) m4)
             \<lparr>stats_heap := (stats_heap m4)(s := None)\<rparr>)
   }"
| "Stats_dtor_slots D n s [] m = Some m"
| "Stats_dtor_slots D n s (i # is) m = do {
     st \<leftarrow> stats_heap m s;
     case counter st i of
       None \<Rightarrow> Stats_dtor_slots D n s is m
     | Some c \<Rightarrow> do {
         cv \<leftarrow> counter_heap m c;
         m1 \<leftarrow> (case next_level cv of None \<Rightarrow> Some m | Some ch \<Rightarrow> delete_Stats D n ch m);
         st1 \<leftarrow> stats_heap m1 s;
         m2 \<leftarrow> delete_Counter (counter st1 i) m1;
         let m3 = update_alloced_mem (- sizeof_Counter D) m2;
         st3 \<leftarrow> stats_heap m3 s;
         Stats_dtor_slots D n s is
           (m3\<lparr>stats_heap := (stats_heap m3)(s \<mapsto> st3\<lparr>counter := (counter st3)(i := None)\<rparr>)\<rparr>)
       }
   }"

subsection \<open>reset_write_handler\<close>

text \<open>
  The loop of the handler over the slots of \<^verbatim>\<open>_base\<close>, and the handler; \<open>now\<close> is the tick
  read by \<^verbatim>\<open>set_resettime\<close>, \<open>n\<close> the fuel of the destructor calls.
\<close>

fun reset_slots ::
  "'e decls \<Rightarrow> nat \<Rightarrow> nat list \<Rightarrow> 'e IPRateMonitor \<Rightarrow> 'e IPRateMonitor option"
where
  "reset_slots D n [] m = Some m"
| "reset_slots D n (i # is) m = do {
     b \<leftarrow> base m;
     st \<leftarrow> stats_heap m b;
     case counter st i of
       None \<Rightarrow> reset_slots D n is m
     | Some c \<Rightarrow> do {
         cv \<leftarrow> counter_heap m c;
         m1 \<leftarrow> (case next_level cv of None \<Rightarrow> Some m | Some ch \<Rightarrow> delete_Stats D n ch m);
         b1 \<leftarrow> base m1;
         st1 \<leftarrow> stats_heap m1 b1;
         m2 \<leftarrow> delete_Counter (counter st1 i) m1;
         b2 \<leftarrow> base m2;
         st2 \<leftarrow> stats_heap m2 b2;
         reset_slots D n is
           (m2\<lparr>stats_heap := (stats_heap m2)(b2 \<mapsto> st2\<lparr>counter := (counter st2)(i := None)\<rparr>)\<rparr>)
       }
   }"

definition reset_write_handler ::
  "'e decls \<Rightarrow> nat \<Rightarrow> int \<Rightarrow> 'e IPRateMonitor \<Rightarrow> 'e IPRateMonitor option"
where
  "reset_write_handler D n now m = do {
     m1 \<leftarrow> reset_slots D n [0..<MAX_COUNTERS D] m;
     Some (m1\<lparr>resettime := now\<rparr>)
   }"

subsection \<open>fold and forced_fold\<close>

text \<open>\<^verbatim>\<open>IPRateMonitor::fold\<close> is \<open>fold_mon\<close> here.\<close>

text \<open>
  \<^verbatim>\<open>(unsigned) (((float) _alloced_mem) * FOLD_FACTOR)\<close> with \<^verbatim>\<open>FOLD_FACTOR\<close> 0.9: the product
  of the single-precision value and the double nearest to 0.9, truncated. The double exceeds
  0.9 by less than \<open>2 ^ - 55\<close>, so the truncated product is the integer quotient below.
\<close>

definition fold_target :: "u32 \<Rightarrow> u32" where
  "fold_target a = word_of_nat (float_of_u32 a * 9 div 10)"

text \<open>
  One run of the body of the \<^verbatim>\<open>do\<close> loop at the node \<open>s\<close>, and the rest of the loop.
  \<open>forward\<close> is the direction drawn by \<^verbatim>\<open>random()\<close>, \<open>now\<close> the tick, \<open>mm\<close> the local
  \<^verbatim>\<open>memmax\<close>. The fuel \<open>n\<close> bounds the number of nodes visited and the depth of each
  \<^verbatim>\<open>delete\<close>.
\<close>

fun fold_loop ::
  "'e decls \<Rightarrow> nat \<Rightarrow> bool \<Rightarrow> int \<Rightarrow> int \<Rightarrow> u32 \<Rightarrow> sref \<Rightarrow> 'e IPRateMonitor
     \<Rightarrow> 'e IPRateMonitor option"
where
  "fold_loop D 0 forward now th mm s m = None"
| "fold_loop D (Suc n) forward now th mm s m = do {
     st \<leftarrow> stats_heap m s;
     case parent st of
       None \<Rightarrow>
         (case (if forward then next_s st else prev_s st) of
            None \<Rightarrow> Some m
          | Some s' \<Rightarrow> fold_loop D n forward now th mm s' m)
     | Some c \<Rightarrow> do {
         cv \<leftarrow> counter_heap m c;
         let cv1 = cv\<lparr>fwd_rate := ewma_update D now 0 (fwd_rate cv)\<rparr>;
         let m1 = m\<lparr>counter_heap := (counter_heap m)(c \<mapsto> cv1)\<rparr>;
         if ewma_average D (fwd_rate cv1) < th then do {
           let cv2 = cv1\<lparr>rev_rate := ewma_update D now 0 (rev_rate cv1)\<rparr>;
           let m2 = m1\<lparr>counter_heap := (counter_heap m1)(c \<mapsto> cv2)\<rparr>;
           if ewma_average D (rev_rate cv2) < th then do {
             m3 \<leftarrow> delete_Stats D n s m2;
             if alloced_mem m3 < mm then Some m3
             else (case (if forward then next_deleted m3 else prev_deleted m3) of
                     None \<Rightarrow> Some m3
                   | Some s' \<Rightarrow> fold_loop D n forward now th mm s' m3)
           }
           else (case (if forward then next_s st else prev_s st) of
                   None \<Rightarrow> Some m2
                 | Some s' \<Rightarrow> fold_loop D n forward now th mm s' m2)
         }
         else (case (if forward then next_s st else prev_s st) of
                 None \<Rightarrow> Some m1
               | Some s' \<Rightarrow> fold_loop D n forward now th mm s' m1)
       }
   }"

definition fold_mon ::
  "'e decls \<Rightarrow> nat \<Rightarrow> bool \<Rightarrow> int \<Rightarrow> int \<Rightarrow> 'e IPRateMonitor \<Rightarrow> 'e IPRateMonitor option"
where
  "fold_mon D n forward now th m = do {
     let m0 = m\<lparr>prev_deleted := None, next_deleted := None\<rparr>;
     s \<leftarrow> (if forward then first m0 else last_s m0);
     let mm = (if memmax m0 \<noteq> 0 then memmax m0 else fold_target (alloced_mem m0));
     fold_loop D n forward now th mm s m0
   }"

text \<open>
  \<^verbatim>\<open>forced_fold\<close>. The loop has no bound of its own, so it is a partial function: \<open>None\<close>
  is a run that never leaves the loop (or a \<^verbatim>\<open>fold\<close> that does not return). \<open>env k\<close> is
  the direction and the tick of the \<open>k\<close>-th call of \<^verbatim>\<open>fold\<close>, \<open>n\<close> the fuel of each call.
  \<^verbatim>\<open>(int) (((float) _thresh) / FOLD_INCREASE_FACTOR)\<close> is the single-precision value of
  \<^verbatim>\<open>_thresh\<close> divided by five and truncated.
\<close>

partial_function (option) forced_fold_loop ::
  "'e decls \<Rightarrow> nat \<Rightarrow> (nat \<Rightarrow> bool \<times> int) \<Rightarrow> nat \<Rightarrow> int \<Rightarrow> int \<Rightarrow> 'e IPRateMonitor
     \<Rightarrow> 'e IPRateMonitor option"
where
  "forced_fold_loop D n env k perc th m =
     (if alloced_mem m > memmax m
      then do {
        m' \<leftarrow> fold_mon D n (fst (env k)) (snd (env k)) th m;
        forced_fold_loop D n env (Suc k) perc (int32 (th + perc)) m'
      }
      else Some m)"

definition forced_fold ::
  "'e decls \<Rightarrow> nat \<Rightarrow> (nat \<Rightarrow> bool \<times> int) \<Rightarrow> 'e IPRateMonitor \<Rightarrow> 'e IPRateMonitor option"
where
  "forced_fold D n env m =
     forced_fold_loop D n env 0 (int (float_of_u32 (thresh m) div 5)) (sint (thresh m)) m"

subsection \<open>memmax_write_handler\<close>



subsection \<open>print and look_read_handler\<close>

definition tab :: string where
  "tab = [CHR 0x09]"

definition newline :: string where
  "newline = [CHR 0x0A]"

text \<open>\<^verbatim>\<open>String(i)\<close> for an integer: its decimal digits, with a minus sign when negative.\<close>

definition digit :: "nat \<Rightarrow> char" where
  "digit d = ''0123456789'' ! d"

fun String_of_nat :: "nat \<Rightarrow> string" where
  "String_of_nat n =
     (if n < 10 then [digit n] else String_of_nat (n div 10) @ [digit (n mod 10)])"

definition String_of_int :: "int \<Rightarrow> string" where
  "String_of_int i = (if i < 0 then ''-'' @ String_of_nat (nat (- i)) else String_of_nat (nat i))"

text \<open>
  \<^verbatim>\<open>print(s, ip)\<close>: the function calls itself on the children, so it takes the depth as
  fuel; \<open>print_slots\<close> is its loop, run on the slots \<open>is\<close> still to visit with the string
  \<open>ret\<close> built so far. \<open>jiffs\<close> is the tick read at the start of each call. The result is
  the string and the state, in which the counters printed have been updated.
\<close>

function print ::
  "'e decls \<Rightarrow> nat \<Rightarrow> int \<Rightarrow> sref \<Rightarrow> string \<Rightarrow> 'e IPRateMonitor
     \<Rightarrow> (string \<times> 'e IPRateMonitor) option"
and print_slots ::
  "'e decls \<Rightarrow> nat \<Rightarrow> int \<Rightarrow> sref \<Rightarrow> string \<Rightarrow> nat list \<Rightarrow> string \<Rightarrow> 'e IPRateMonitor
     \<Rightarrow> (string \<times> 'e IPRateMonitor) option"
where
  "print D 0 jiffs s ip m = None"
| "print D (Suc n) jiffs s ip m = print_slots D n jiffs s ip [0..<MAX_COUNTERS D] [] m"
| "print_slots D n jiffs s ip [] ret m = Some (ret, m)"
| "print_slots D n jiffs s ip (i # is) ret m =
     (case stats_heap m s of
        None \<Rightarrow> None
      | Some st \<Rightarrow>
         (case counter st i of
            None \<Rightarrow> print_slots D n jiffs s ip is ret m
          | Some c \<Rightarrow>
             (case counter_heap m c of
                None \<Rightarrow> None
              | Some cv \<Rightarrow>
                 if ewma_average D (rev_rate cv) > 0 \<or> ewma_average D (fwd_rate cv) > 0
                 then
                   (let this_ip =
                          (if ip \<noteq> [] then ip @ ''.'' @ String_of_nat i else String_of_nat i);
                        cv1 = cv\<lparr>fwd_rate := ewma_update D jiffs 0 (fwd_rate cv)\<rparr>;
                        cv2 = cv1\<lparr>rev_rate := ewma_update D jiffs 0 (rev_rate cv1)\<rparr>;
                        m1 = m\<lparr>counter_heap := (counter_heap m)(c \<mapsto> cv2)\<rparr>;
                        ret1 = ret @ this_ip
                          @ tab @ cp_unparse_real D
                              (int32 (ewma_average D (fwd_rate cv2) * ewma_freq D)) (ewma_scale D)
                          @ tab @ cp_unparse_real D
                              (int32 (ewma_average D (rev_rate cv2) * ewma_freq D)) (ewma_scale D)
                          @ newline
                    in case next_level cv2 of
                         None \<Rightarrow> print_slots D n jiffs s ip is ret1 m1
                       | Some ch \<Rightarrow>
                          (case print D n jiffs ch (tab @ this_ip) m1 of
                             None \<Rightarrow> None
                           | Some rm \<Rightarrow>
                               print_slots D n jiffs s ip is (ret1 @ fst rm) (snd rm)))
                 else print_slots D n jiffs s ip is ret m)))"
  by pat_completeness auto
termination
  by (relation "measures
        [(\<lambda>x. case x of Inl (D, n, r) \<Rightarrow> 2 * n | Inr (D, n, r) \<Rightarrow> 2 * n + 1),
         (\<lambda>x. case x of Inl r \<Rightarrow> 0 | Inr (D, n, jiffs, s, ip, is, r) \<Rightarrow> length is)]")
     auto

text \<open>
  \<^verbatim>\<open>look_read_handler\<close>: \<open>now\<close> is the tick read by the handler, \<open>jiffs\<close> the tick read by
  \<^verbatim>\<open>print\<close>, \<open>attempt\<close> the result of \<^verbatim>\<open>_lock->attempt()\<close>.
\<close>

definition look_read_handler ::
  "'e decls \<Rightarrow> nat \<Rightarrow> int \<Rightarrow> int \<Rightarrow> bool \<Rightarrow> 'e IPRateMonitor
     \<Rightarrow> (string \<times> 'e IPRateMonitor) option"
where
  "look_read_handler D n now jiffs attempt m =
     (let ret = String_of_int (int32 (now - resettime m)) @ newline in
      if attempt then do {
        b \<leftarrow> base m;
        rm \<leftarrow> print D n jiffs b [] m;
        Some (ret @ fst rm, snd rm)
      }
      else Some (ret @ ''unavailable'' @ newline, m))"

section \<open>The age list\<close>

text \<open>
  \<open>chain h p xs q\<close>: the nodes \<open>xs\<close> are live in \<open>h\<close> and linked in this order by \<^verbatim>\<open>_next\<close> and
  \<^verbatim>\<open>_prev\<close>; the \<^verbatim>\<open>_prev\<close> of the first is \<open>p\<close>, the \<^verbatim>\<open>_next\<close> of the last is \<open>q\<close>.
  \<open>agelist m xs\<close>: the list that starts at \<^verbatim>\<open>_first\<close> and ends at \<^verbatim>\<open>_last\<close> is \<open>xs\<close>.
\<close>

definition hd_opt :: "'a list \<Rightarrow> 'a option" where
  "hd_opt xs = (case xs of [] \<Rightarrow> None | y # ys \<Rightarrow> Some y)"

definition last_opt :: "'a list \<Rightarrow> 'a option" where
  "last_opt xs = (if xs = [] then None else Some (last xs))"



section \<open>Well-formed monitors\<close>
















section \<open>What look may change\<close>



section \<open>The dump, as the specification describes it\<close>

text \<open>
  The specification gives the dump as a list of lines: for each counter with a positive
  average, depth first and in ascending slot order, the dotted prefix, the forward and the
  reverse rate, tab separated, with one more leading tab per level. \<open>dump_spec\<close> follows
  these words on the state before the call: it is a function of the tree and writes
  nothing. A counter is identified by its path, the slot indices from the root down.
  The rates of a line are those of the counter aged with sample 0 at the tick of the dump.
  A counter without a positive average contributes no line and hides the counters below it.
\<close>

fun dotted :: "nat list \<Rightarrow> string" where
  "dotted [] = []"
| "dotted [i] = String_of_nat i"
| "dotted (i # j # js) = String_of_nat i @ ''.'' @ dotted (j # js)"






section \<open>Concrete declarations for evaluation\<close>

text \<open>
  An instance of the declarations, used where the model is evaluated on a concrete state:
  the sizes of an ILP32 build (a \<^verbatim>\<open>Stats\<close> is 256 slot pointers and four more pointers, a
  \<^verbatim>\<open>Counter\<close> two rate estimators of three words each, a pointer and an unsigned), a fan-out
  of 256 and a floor of 100 KiB for the memory cap. The rate estimator of the instance keeps
  the tick of its last update and its average, and halves the average for every tick since;
  a rate is printed as the integer it is.
\<close>

definition upd0 :: "int \<Rightarrow> int \<Rightarrow> int \<times> int \<Rightarrow> int \<times> int" where
  "upd0 now x e = (now, (snd e div 2 ^ nat (now - fst e)) + x)"

definition D0 :: "(int \<times> int) decls" where
  "D0 = \<lparr>sizeof_Counter = 32, sizeof_Stats = 1040, MEMMAX_MIN = 100, MAX_COUNTERS = 256,
         ewma_initialize = (0, 0), ewma_update = upd0, ewma_average = snd,
         ewma_freq = 100, ewma_scale = 10,
         cp_unparse_real = (\<lambda>v sc. String_of_int v)\<rparr>"

text \<open>
  Concrete states: the monitor after \<^verbatim>\<open>initialize\<close> with its root at address 100, and the
  same monitor after one \<^verbatim>\<open>make_counter\<close> on slot 10 of the root.
\<close>

definition mon_init :: "(int \<times> int) IPRateMonitor" where
  "mon_init = snd (initialize D0 0 True (Some 100) IPRateMonitor_new)"

definition mon_one :: "(int \<times> int) IPRateMonitor" where
  "mon_one = snd (the (make_counter D0 (Some 7) 100 10 None None mon_init))"

definition args_bad_type :: conf_args where
  "args_bad_type = \<lparr>arg_type = ''FOO'', arg_offset = 14, arg_ratio = 0x10000,
     arg_threshold = 100, arg_memmax = None, arg_annotate = None\<rparr>"

text \<open>
  A configuration with a memmax of 4194305 KiB, and the monitor configured with it and then
  initialized.
\<close>

definition args_wrap :: conf_args where
  "args_wrap = \<lparr>arg_type = ''PACKETS'', arg_offset = 0, arg_ratio = 0x10000,
     arg_threshold = 10, arg_memmax = Some 4194305, arg_annotate = None\<rparr>"

definition mon_tiny :: "(int \<times> int) IPRateMonitor" where
  "mon_tiny =
     snd (initialize D0 0 True (Some 100) (snd (configure D0 (Some args_wrap) IPRateMonitor_new)))"

text \<open>
  Trees with nodes below the root. \<open>mon_tree fa ra fb rb\<close> is a monitor with threshold 10
  and no memory cap, whose root (address 100) has a counter in slot 10 (address 7, rates
  \<open>fa\<close> and \<open>ra\<close>) and one in slot 20 (address 8, rates \<open>fb\<close> and \<open>rb\<close>); each counter has a
  child node (addresses 200 and 300), and node 200 has a counter in slot 3 (address 9) with
  a forward average of 5. The age list is 100, 200, 300.
\<close>

definition mon_tree ::
  "int \<times> int \<Rightarrow> int \<times> int \<Rightarrow> int \<times> int \<Rightarrow> int \<times> int \<Rightarrow> (int \<times> int) IPRateMonitor"
where
  "mon_tree fa ra fb rb =
     \<lparr>count_packets = True, offset = 0, thresh = 10, memmax = 0, ratio = 0x10000,
      anno_packets = True, base = Some 100, alloced_mem = 3 * 1040 + 3 * 32,
      first = Some 100, last_s = Some 300, prev_deleted = None, next_deleted = None,
      resettime = 0,
      stats_heap =
        [100 \<mapsto> \<lparr>counter = [10 \<mapsto> 7, 20 \<mapsto> 8], prev_s = None, next_s = Some 200,
                  parent = None\<rparr>,
         200 \<mapsto> \<lparr>counter = [3 \<mapsto> 9], prev_s = Some 100, next_s = Some 300,
                  parent = Some 7\<rparr>,
         300 \<mapsto> \<lparr>counter = Map.empty, prev_s = Some 200, next_s = None, parent = Some 8\<rparr>],
      counter_heap =
        [7 \<mapsto> \<lparr>rev_rate = ra, fwd_rate = fa, next_level = Some 200, anno_this = 0\<rparr>,
         8 \<mapsto> \<lparr>rev_rate = rb, fwd_rate = fb, next_level = Some 300, anno_this = 0\<rparr>,
         9 \<mapsto> \<lparr>rev_rate = (0, 0), fwd_rate = (0, 5), next_level = None, anno_this = 0\<rparr>]\<rparr>"

text \<open>The monitor configured with a memmax of 100 KiB and then initialized.\<close>

definition args_capped :: conf_args where
  "args_capped = \<lparr>arg_type = ''PACKETS'', arg_offset = 0, arg_ratio = 0x10000,
     arg_threshold = 10, arg_memmax = Some 100, arg_annotate = None\<rparr>"

definition mon_capped :: "(int \<times> int) IPRateMonitor" where
  "mon_capped =
     snd (initialize D0 0 True (Some 100)
            (snd (configure D0 (Some args_capped) IPRateMonitor_new)))"


section \<open>Properties\<close>

subsection \<open>Evaluating the model on a concrete state\<close>

text \<open>
  The simplifier runs the model like an interpreter when it leaves the continuation of a
  bind alone until the first computation has a value.
\<close>

lemma bind_weak_cong: "x = y \<Longrightarrow> Option.bind x f = Option.bind y f"
  by simp

lemma upt_0: "0 < n \<Longrightarrow> [0..<n] = 0 # [Suc 0..<n]"
  by (simp add: upt_conv_Cons)

lemma upt_1: "Suc 0 < n \<Longrightarrow> [Suc 0..<n] = Suc 0 # [2..<n]"
  by (simp add: upt_conv_Cons numeral_2_eq_2)

lemmas eval_simps = D0_def mon_tree_def mon_init_def mon_one_def fold_mon_def Let_def upd0_def
  update_alloced_mem_def delete_Counter_def untangle_prev_def untangle_next_def clear_parent_def
  reset_write_handler_def make_counter_def initialize_def Stats_new_def IPRateMonitor_new_def
  upt_0 upt_1 look_read_handler_def int32_def String_of_int_def digit_def tab_def newline_def
  fold_target_def float_of_u32_def bitlen_def mon_tiny_def configure_def args_wrap_def
  upper_def upper_char_def mon_capped_def args_capped_def


subsection \<open>The age list under the destructor\<close>

text \<open>
  Lemmas on doubly linked chains, then the destructor: unlinking a node removes it from the
  age list and publishes its neighbours; freeing a counter whose child is gone, and freeing
  a node whose slots are empty, keep the invariant; so does the whole of \<^verbatim>\<open>delete s\<close> for
  a node \<open>s\<close> that has a parent, when the fuel exceeds the height of \<open>s\<close>.
\<close>

lemma hd_opt_simps [simp]: "hd_opt [] = None" "hd_opt (x # xs) = Some x"
  by (simp_all add: hd_opt_def)

lemma last_opt_simps [simp]:
  "last_opt [] = None" "last_opt (xs @ [x]) = Some x" "last_opt [x] = Some x"
  by (simp_all add: last_opt_def)

































subsection \<open>make_counter\<close>

text \<open>
  C6. On a live node \<open>s\<close>, \<^verbatim>\<open>make_counter\<close> returns; it returns null exactly when the cap
  is nonzero and \<^verbatim>\<open>_alloced_mem + sizeof(Counter) > _memmax\<close>, or when \<^verbatim>\<open>new Counter\<close>
  fails. On success the new counter holds the supplied forward and reverse rates, or the
  state \<^verbatim>\<open>initialize()\<close> gives where the pointer is null, has no child and no annotation,
  sits in slot \<open>index\<close> of \<open>s\<close>, and \<^verbatim>\<open>_alloced_mem\<close> has grown by \<^verbatim>\<open>sizeof(Counter)\<close>.
\<close>

theorem make_counter_result:
  assumes "stats_heap m s = Some st"
  shows "\<exists>r m'. make_counter D alloc s index fwdp revp m = Some (r, m') \<and>
     ((r = None) =
        ((memmax m \<noteq> 0 \<and> alloced_mem m + sizeof_Counter D > memmax m) \<or> alloc = None)) \<and>
     (case r of
        None \<Rightarrow> alloced_mem m' = alloced_mem m \<and> counter_heap m' = counter_heap m
      | Some c \<Rightarrow>
          alloc = Some c \<and>
          alloced_mem m' = alloced_mem m + sizeof_Counter D \<and>
          counter_heap m' c =
            Some \<lparr>rev_rate = (case revp of None \<Rightarrow> ewma_initialize D | Some r \<Rightarrow> r),
                  fwd_rate = (case fwdp of None \<Rightarrow> ewma_initialize D | Some f \<Rightarrow> f),
                  next_level = None, anno_this = 0\<rparr> \<and>
          map_option (\<lambda>t. counter t (unat index)) (stats_heap m' s) = Some (Some c))"
  using assms
  by (cases alloc) (auto simp: make_counter_def update_alloced_mem_def)

theorem make_counter_result_witness:
  "stats_heap mon_init 100 \<noteq> None \<and>
   (\<exists>m'. make_counter D0 (Some 7) 100 10 None None mon_init = Some (Some 7, m') \<and>
         alloced_mem m' = 1072)"
proof -
  have h: "stats_heap mon_init 100 =
      Some \<lparr>counter = (\<lambda>i. None), prev_s = None, next_s = None, parent = None\<rparr>"
    by (simp add: mon_init_def initialize_def Stats_new_def update_alloced_mem_def Let_def)
  have a: "alloced_mem mon_init = 1040"
    by (simp add: mon_init_def initialize_def Stats_new_def update_alloced_mem_def Let_def
        IPRateMonitor_new_def D0_def)
  have c: "sizeof_Counter D0 = 32" by (simp add: D0_def)
  have mm: "memmax mon_init = 0"
    by (simp add: mon_init_def initialize_def Stats_new_def update_alloced_mem_def Let_def
        IPRateMonitor_new_def)
  from make_counter_result [OF h, of D0 "Some 7" 10 None None]
  show ?thesis using h a c mm by (auto split: option.splits)
qed

subsection \<open>configure\<close>

text \<open>
  C7, as stated, fails: a configuration with the unknown type word \<^verbatim>\<open>FOO\<close> and offset 14 is
  rejected, and the rejected call has stored the offset.
\<close>

theorem configure_partial_effect_counterexample:
  "fst (configure D0 (Some args_bad_type) IPRateMonitor_new) = Inl BadMonitorType \<and>
   offset (snd (configure D0 (Some args_bad_type) IPRateMonitor_new)) = 14 \<and>
   offset (IPRateMonitor_new :: (int \<times> int) IPRateMonitor) = 0"
  by (simp add: configure_def args_bad_type_def IPRateMonitor_new_def Let_def upper_def
      upper_char_def)

text \<open>
  C7, amended. A configuration that parses and is then rejected leaves its arguments in the
  monitor. Rejected for its type word, the monitor holds the parsed offset, ratio, threshold
  (not rescaled), memmax (as parsed, 0 when absent) and annotate flag (true when absent); the
  count mode is as before. Rejected for a ratio above 1, it holds in addition the new count
  mode and the memmax raised to \<^verbatim>\<open>MEMMAX_MIN\<close> and multiplied by 1024. Nothing else changes.
\<close>

theorem configure_rejected_effect:
  assumes "configure D (Some a) m = (Inl e, m')"
  shows "(e = BadMonitorType \<and>
          upper (arg_type a) \<noteq> ''PACKETS'' \<and> upper (arg_type a) \<noteq> ''BYTES'' \<and>
          m' = m\<lparr>offset := arg_offset a, ratio := arg_ratio a, thresh := arg_threshold a,
                 memmax := (case arg_memmax a of None \<Rightarrow> 0 | Some k \<Rightarrow> k),
                 anno_packets := (case arg_annotate a of None \<Rightarrow> True | Some b \<Rightarrow> b)\<rparr>)
       \<or> (e = BadRatio \<and> arg_ratio a > 0x10000 \<and>
          m' = m\<lparr>count_packets := (upper (arg_type a) = ''PACKETS''),
                 offset := arg_offset a, ratio := arg_ratio a, thresh := arg_threshold a,
                 memmax := (case arg_memmax a of None \<Rightarrow> 0
                            | Some k \<Rightarrow>
                                (if k \<noteq> 0 \<and> k < MEMMAX_MIN D then MEMMAX_MIN D else k) * 1024),
                 anno_packets := (case arg_annotate a of None \<Rightarrow> True | Some b \<Rightarrow> b)\<rparr>)"
  using assms
  by (auto simp: configure_def Let_def split: if_splits option.splits)

theorem configure_rejected_effect_witness:
  "configure D0 (Some args_bad_type) IPRateMonitor_new =
     (Inl BadMonitorType, IPRateMonitor_new\<lparr>offset := 14, ratio := 0x10000, thresh := 100\<rparr>)"
proof -
  obtain e m' where
    c: "configure D0 (Some args_bad_type) (IPRateMonitor_new :: (int \<times> int) IPRateMonitor)
          = (e, m')"
    by (cases "configure D0 (Some args_bad_type)
                 (IPRateMonitor_new :: (int \<times> int) IPRateMonitor)")
  have e: "e = Inl BadMonitorType"
    using c by (simp add: configure_def args_bad_type_def Let_def upper_def upper_char_def)
  from configure_rejected_effect [OF c [unfolded e]]
  show ?thesis unfolding c e
    by (auto simp: args_bad_type_def IPRateMonitor_new_def)
qed

subsection \<open>reset_write_handler\<close>

text \<open>
  C3 at a concrete state: the root at address 100 with one counter (address 7) in slot 10.
  The handler returns, the counter is freed and the slot is cleared, but \<^verbatim>\<open>_alloced_mem\<close>
  is still 1072, the size of the root (1040) plus the size of the freed counter (32): the
  handler frees the counters of the root without \<^verbatim>\<open>update_alloced_mem\<close>, which the
  destructor of \<^verbatim>\<open>Stats\<close> calls for each counter it frees.
\<close>

theorem reset_accounting_failing_input:
  "map_option (\<lambda>m'. (alloced_mem m', counter_heap m' 7,
                     map_option (\<lambda>st. counter st 10) (stats_heap m' 100)))
     (reset_write_handler D0 (Suc 0) 5 mon_one) = Some (1072, None, Some None)"
  by (simp add: eval_simps cong: bind_weak_cong)

subsection \<open>The memory cap\<close>





subsection \<open>The age list\<close>








subsection \<open>fold\<close>




text \<open>
  C8, as stated, fails. Both counters below have rates of zero, so nodes 200 and 300 are
  cold for the threshold 10. With no memory cap the first fold stops after it has destroyed
  node 200, because \<^verbatim>\<open>_alloced_mem\<close> has dropped below nine tenths of its value at the
  start; node 300 is still there. The second fold, with the same threshold, direction and
  tick, computes a new target and destroys node 300.
\<close>

theorem fold_twice_counterexample:
  "(fold_mon D0 (Suc (Suc (Suc 0))) True 1 10 (mon_tree (0, 0) (0, 0) (0, 0) (0, 0))
      \<bind> (\<lambda>m1. Some (stats_heap m1 200 = None, stats_heap m1 300 = None)))
     = Some (True, False) \<and>
   (fold_mon D0 (Suc (Suc (Suc 0))) True 1 10 (mon_tree (0, 0) (0, 0) (0, 0) (0, 0))
      \<bind> (\<lambda>m1. fold_mon D0 (Suc (Suc (Suc 0))) True 1 10 m1)
      \<bind> (\<lambda>m2. Some (stats_heap m2 200 = None, stats_heap m2 300 = None)))
     = Some (True, True)"
  by (simp add: eval_simps cong: bind_weak_cong)

subsection \<open>forced_fold\<close>

text \<open>
  C5, as stated, fails. In the monitor with a cap of 1024 bytes and a root of 1040 bytes
  the cap is nonzero and exceeded, the age list holds the root alone, every fold returns the
  state unchanged, and \<^verbatim>\<open>forced_fold\<close> never leaves its loop.
\<close>

lemma tiny_fold: "fold_mon D0 (Suc n) fw now th mon_tiny = Some mon_tiny"
  by (simp add: eval_simps cong: bind_weak_cong)

lemma tiny_over: "alloced_mem mon_tiny > memmax mon_tiny"
  by (simp add: eval_simps)

lemma tiny_loop_aux:
  assumes "forced_fold_loop D n env k perc th m = Some y"
  shows "\<not> (D = D0 \<and> m = mon_tiny)"
proof (rule forced_fold_loop.raw_induct
         [where P = "\<lambda>D n env k perc th m y. \<not> (D = D0 \<and> m = mon_tiny)", OF _ assms])
  fix f :: "(int \<times> int) decls \<Rightarrow> nat \<Rightarrow> (nat \<Rightarrow> bool \<times> int) \<Rightarrow> nat \<Rightarrow> int \<Rightarrow> int
              \<Rightarrow> (int \<times> int) IPRateMonitor \<Rightarrow> (int \<times> int) IPRateMonitor option"
  fix D n env k perc th m y
  assume ih: "\<And>D n env k perc th m y.
                f D n env k perc th m = Some y \<Longrightarrow> \<not> (D = D0 \<and> m = mon_tiny)"
  assume step: "(if memmax m < alloced_mem m
      then fold_mon D n (fst (env k)) (snd (env k)) th m \<bind>
           f D n env (Suc k) perc (int32 (th + perc))
      else Some m) = Some y"
  show "\<not> (D = D0 \<and> m = mon_tiny)"
  proof
    assume "D = D0 \<and> m = mon_tiny"
    then have D: "D = D0" and m: "m = mon_tiny" by simp_all
    show False
    proof (cases n)
      case 0
      then show False using step tiny_over
        by (simp add: m D fold_mon_def Let_def mon_tiny_def initialize_def Stats_new_def
            update_alloced_mem_def)
    next
      case (Suc n')
      with step tiny_over have "f D0 n env (Suc k) perc (int32 (th + perc)) mon_tiny = Some y"
        using tiny_fold [of n' "fst (env k)" "snd (env k)" th]
        by (simp add: m D)
      from ih [OF this] show False by simp
    qed
  qed
qed

theorem forced_fold_diverges_counterexample:
  "memmax mon_tiny = 1024 \<and> alloced_mem mon_tiny = 1040 \<and>
   fold_mon D0 (Suc 0) True 0 (sint (thresh mon_tiny)) mon_tiny = Some mon_tiny \<and>
   forced_fold D0 (Suc 0) (\<lambda>k. (True, 0)) mon_tiny = None"
proof -
  have "forced_fold D0 (Suc 0) (\<lambda>k. (True, 0)) mon_tiny = None"
    unfolding forced_fold_def using tiny_loop_aux [of D0 _ _ _ _ _ mon_tiny]
    by (cases "forced_fold_loop D0 (Suc 0) (\<lambda>k. (True, 0)) 0
                 (int (float_of_u32 (thresh mon_tiny) div 5)) (sint (thresh mon_tiny)) mon_tiny")
       auto
  moreover have "memmax mon_tiny = 1024 \<and> alloced_mem mon_tiny = 1040"
    by (simp add: eval_simps)
  ultimately show ?thesis using tiny_fold by simp
qed

subsection \<open>look\<close>


subsection \<open>What look changes\<close>











subsection \<open>The dump follows the specification\<close>









lemma String_of_nat_nonempty: "String_of_nat n \<noteq> []"
  by (subst String_of_nat.simps) simp


lemma dotted_nonempty: "path \<noteq> [] \<Longrightarrow> dotted path \<noteq> []"
  by (induction path rule: dotted.induct) (simp_all add: String_of_nat_nonempty)










end
